theory Spec2Isabelle
  imports Main
begin

section \<open>JavaScript string primitives used by the sources\<close>

text \<open>
  Strings are lists of \<^typ>\<open>char\<close>, the UTF-8 bytes of the text. The model covers
  the ASCII repertoire: the white space removed by \<open>String.prototype.trim\<close> is TAB, LF,
  VT, FF, CR and SPACE, and \<open>toLowerCase\<close> maps \<open>A\<close>..\<open>Z\<close> to \<open>a\<close>..\<open>z\<close>. Characters
  outside ASCII are carried along unchanged (they are neither white space nor letters
  here); \<open>js_length\<close> counts them as JavaScript's \<open>length\<close> does.
\<close>

definition is_space :: "char \<Rightarrow> bool" where
  "is_space c = (c = CHR 0x09 \<or> c = CHR 0x0A \<or> c = CHR 0x0B \<or> c = CHR 0x0C
                 \<or> c = CHR 0x0D \<or> c = CHR 0x20)"

definition is_newline :: "char \<Rightarrow> bool" where
  "is_newline c = (c = CHR 0x0D \<or> c = CHR 0x0A)"

definition trim :: "string \<Rightarrow> string" where
  "trim s = rev (dropWhile is_space (rev (dropWhile is_space s)))"

definition lower_table :: "(char \<times> char) list" where
  "lower_table = zip ''ABCDEFGHIJKLMNOPQRSTUVWXYZ'' ''abcdefghijklmnopqrstuvwxyz''"

definition lower_char :: "char \<Rightarrow> char" where
  "lower_char c = (case map_of lower_table c of Some d \<Rightarrow> d | None \<Rightarrow> c)"

definition toLowerCase :: "string \<Rightarrow> string" where
  "toLowerCase s = map lower_char s"

text \<open>\<open>s.replace(/[\r\n]+/g, " ")\<close>: every maximal run of CR/LF becomes one space.\<close>

function replace_newlines :: "string \<Rightarrow> string" where
  "replace_newlines [] = []"
| "replace_newlines (c # cs) =
     (if is_newline c then CHR 0x20 # replace_newlines (dropWhile is_newline cs)
      else c # replace_newlines cs)"
  by pat_completeness auto
termination
  by (relation "measure length") (auto simp: le_imp_less_Suc length_dropWhile_le)

text \<open>\<open>s.indexOf(c)\<close> for a one-character pattern: the first position, or \<open>-1\<close>.\<close>

fun indexOf :: "string \<Rightarrow> char \<Rightarrow> int" where
  "indexOf [] c = - 1"
| "indexOf (x # xs) c =
     (if x = c then 0 else (let r = indexOf xs c in if r = - 1 then - 1 else r + 1))"

text \<open>\<open>s.substring(a, b)\<close>: both indices are clamped to \<open>[0, length]\<close> and swapped
  when out of order; \<open>s.substring(a)\<close> runs to the end of the string.\<close>

definition clamp_index :: "string \<Rightarrow> int \<Rightarrow> nat" where
  "clamp_index s i = (if i < 0 then 0 else min (nat i) (length s))"

definition substring :: "string \<Rightarrow> int \<Rightarrow> int \<Rightarrow> string" where
  "substring s a b =
     (let a' = clamp_index s a; b' = clamp_index s b;
          lo = min a' b'; hi = max a' b'
      in take (hi - lo) (drop lo s))"

definition substring_from :: "string \<Rightarrow> int \<Rightarrow> string" where
  "substring_from s a = drop (clamp_index s a) s"

text \<open>
  \<open>s.length\<close> is the number of UTF-16 code units of \<open>s\<close>. On the UTF-8 bytes of \<open>s\<close>
  that is one for every byte that starts a character (every byte that is not a
  continuation byte \<open>0x80\<close>..\<open>0xBF\<close>), and one more for every character of four bytes
  (lead byte from \<open>0xF0\<close>), which is a surrogate pair in UTF-16.
\<close>

definition is_continuation_byte :: "char \<Rightarrow> bool" where
  "is_continuation_byte c = (128 \<le> (of_char c :: nat) \<and> (of_char c :: nat) < 192)"

definition is_four_byte_lead :: "char \<Rightarrow> bool" where
  "is_four_byte_lead c = (240 \<le> (of_char c :: nat))"

definition js_length :: "string \<Rightarrow> nat" where
  "js_length s =
     length (filter (\<lambda>c. \<not> is_continuation_byte c) s) + length (filter is_four_byte_lead s)"

section \<open>utils.ts\<close>

record CommandResult =
  success :: bool
  result_output :: string
  error :: "string option"

record HistoryItem =
  command :: string
  item_output :: string
  timestamp :: int

record TerminalHistory =
  history :: "HistoryItem list"
  currentIndex :: int

text \<open>
  A value thrown by JavaScript code: an \<open>Error\<close> object with its message, or any other
  value (the \<open>catch\<close> blocks of the sources test \<open>error instanceof Error\<close>).
\<close>

datatype thrown = Error string | NonError

text \<open>\<open>xs[i]\<close> on a JavaScript array: \<open>undefined\<close> (here \<open>None\<close>) outside the array.\<close>

definition js_index :: "'a list \<Rightarrow> int \<Rightarrow> 'a option" where
  "js_index xs i = (if 0 \<le> i \<and> i < int (length xs) then Some (xs ! nat i) else None)"

definition undefined_read :: thrown where
  "undefined_read = Error ''Cannot read properties of undefined (reading 'command')''"

definition new_TerminalHistory :: TerminalHistory where
  "new_TerminalHistory = \<lparr>history = [], currentIndex = - 1\<rparr>"

text \<open>\<open>add\<close>: the time stamp \<open>new Date()\<close> is passed in as \<open>now\<close>.\<close>

definition add :: "TerminalHistory \<Rightarrow> string \<Rightarrow> string \<Rightarrow> int \<Rightarrow> TerminalHistory" where
  "add h cmd out now =
     (let items = history h @ [\<lparr>command = cmd, item_output = out, timestamp = now\<rparr>]
      in \<lparr>history = items, currentIndex = int (length items)\<rparr>)"

text \<open>
  \<open>getPrevious\<close> and \<open>getNext\<close> return \<open>string | null\<close> (\<open>None\<close> is \<open>null\<close>) together
  with the updated object; reading \<open>.command\<close> of an entry that is not there throws.
\<close>

definition getPrevious :: "TerminalHistory \<Rightarrow> thrown + (string option \<times> TerminalHistory)" where
  "getPrevious h =
     (if currentIndex h > 0 then
        (let h' = h\<lparr>currentIndex := currentIndex h - 1\<rparr> in
         case js_index (history h') (currentIndex h') of
           None \<Rightarrow> Inl undefined_read
         | Some item \<Rightarrow> Inr (Some (command item), h'))
      else Inr (None, h))"

definition getNext :: "TerminalHistory \<Rightarrow> thrown + (string option \<times> TerminalHistory)" where
  "getNext h =
     (if currentIndex h < int (length (history h)) - 1 then
        (let h' = h\<lparr>currentIndex := currentIndex h + 1\<rparr> in
         case js_index (history h') (currentIndex h') of
           None \<Rightarrow> Inl undefined_read
         | Some item \<Rightarrow> Inr (Some (command item), h'))
      else Inr (Some [], h\<lparr>currentIndex := int (length (history h))\<rparr>))"

definition getAll :: "TerminalHistory \<Rightarrow> HistoryItem list" where
  "getAll h = history h"

definition clear :: "TerminalHistory \<Rightarrow> TerminalHistory" where
  "clear h = h\<lparr>history := [], currentIndex := - 1\<rparr>"

text \<open>\<open>validateApiKey\<close>: the second argument is \<open>process.env.GEMINI_API_KEY\<close>.\<close>

definition validateApiKey :: "string option \<Rightarrow> string option \<Rightarrow> bool" where
  "validateApiKey apiKey env_key =
     (let key = (case apiKey of Some k \<Rightarrow> (if k \<noteq> [] then Some k else env_key) | None \<Rightarrow> env_key)
      in case key of Some k \<Rightarrow> length k > 0 | None \<Rightarrow> False)"

definition sanitizeInput :: "string \<Rightarrow> string" where
  "sanitizeInput input = replace_newlines (trim input)"

definition parseCommand :: "string \<Rightarrow> string \<times> string" where
  "parseCommand input =
     (let trimmed = sanitizeInput input;
          spaceIndex = indexOf trimmed (CHR 0x20)
      in if spaceIndex = - 1 then (toLowerCase trimmed, [])
         else (toLowerCase (substring trimmed 0 spaceIndex),
               trim (substring_from trimmed (spaceIndex + 1))))"

text \<open>
  The operations of a history object as commands, for sequences of calls. A call that
  throws ends the run with the thrown value.
\<close>

datatype history_op = Add string string int | GetPrevious | GetNext | GetAll | Clear

definition history_step :: "history_op \<Rightarrow> TerminalHistory \<Rightarrow> thrown + TerminalHistory" where
  "history_step op h =
     (case op of
        Add cmd out now \<Rightarrow> Inr (add h cmd out now)
      | GetPrevious \<Rightarrow> map_sum id snd (getPrevious h)
      | GetNext \<Rightarrow> map_sum id snd (getNext h)
      | GetAll \<Rightarrow> Inr h
      | Clear \<Rightarrow> Inr (clear h))"

fun history_run :: "history_op list \<Rightarrow> TerminalHistory \<Rightarrow> thrown + TerminalHistory" where
  "history_run [] h = Inr h"
| "history_run (op # ops) h =
     (case history_step op h of Inl e \<Rightarrow> Inl e | Inr h' \<Rightarrow> history_run ops h')"

text \<open>The invariant of the recall cursor.\<close>

definition cursor_in_range :: "TerminalHistory \<Rightarrow> bool" where
  "cursor_in_range h = (- 1 \<le> currentIndex h \<and> currentIndex h \<le> int (length (history h)))"

definition cursor_nonneg_if_filled :: "TerminalHistory \<Rightarrow> bool" where
  "cursor_nonneg_if_filled h = (history h = [] \<or> 0 \<le> currentIndex h)"

text \<open>
  The parsing rule in the words of the specification, for comparison with
  \<open>parseCommand\<close>: newline runs are collapsed first, then the line is split at its
  first white-space character.
\<close>

definition spec_route :: "string \<Rightarrow> string \<times> string" where
  "spec_route input =
     (let s = sanitizeInput input
      in (toLowerCase (takeWhile (\<lambda>c. \<not> is_space c) s),
          trim (drop 1 (dropWhile (\<lambda>c. \<not> is_space c) s))))"

text \<open>
  A run of recall calls on one history object, collecting what each call returns.
\<close>

fun recall_calls ::
  "(TerminalHistory \<Rightarrow> thrown + (string option \<times> TerminalHistory)) list \<Rightarrow> TerminalHistory
     \<Rightarrow> thrown + (string option list \<times> TerminalHistory)" where
  "recall_calls [] h = Inr ([], h)"
| "recall_calls (f # fs) h =
     (case f h of
        Inl e \<Rightarrow> Inl e
      | Inr (r, h') \<Rightarrow>
          (case recall_calls fs h' of Inl e \<Rightarrow> Inl e | Inr (rs, h'') \<Rightarrow> Inr (r # rs, h'')))"

section \<open>terminal.ts\<close>

subsection \<open>Collaborators\<close>

text \<open>
  The hosted model, the console prompt, the file system and the child process are
  outside the program. They are the fields of a \<open>World\<close>; every call the program makes
  to one of them is also recorded as an \<open>event\<close>, in call order. Console output
  (\<open>console.log\<close>) is presentation and is not recorded. The sampling temperature is a
  floating-point number that is only handed on to the client library; it is left out.
\<close>

record ModelHandle =
  handle_apiKey :: string
  handle_model :: string

text \<open>
  What the child process does: it closes with an exit code (\<open>null\<close>, here \<open>None\<close>, when a
  signal ended it) after writing chunks to stdout and stderr, or it fails to start and
  the \<open>error\<close> event carries an \<open>Error\<close> with a message.
\<close>

datatype shell_outcome = Closed "int option" "string list" "string list" | SpawnError string

record World =
  question :: "thrown + string"
  generateContent :: "ModelHandle \<Rightarrow> string \<Rightarrow> thrown + string"
  generateContentStream :: "ModelHandle \<Rightarrow> string \<Rightarrow> thrown + (string list \<times> thrown option)"
  visionGenerateContent :: "string \<Rightarrow> string \<Rightarrow> string \<Rightarrow> string \<Rightarrow> thrown + string"
  existsSync :: "string \<Rightarrow> bool"
  readFileSync :: "string \<Rightarrow> thrown + string"
  extname :: "string \<Rightarrow> string"
  spawn_sh :: "string \<Rightarrow> shell_outcome"
  now :: int
  colour :: bool

datatype event =
    Question
  | GenerateContent ModelHandle string
  | GenerateContentStream ModelHandle string
  | VisionGenerateContent string string string string
  | ExistsSync string
  | ReadFileSync string
  | Spawn string

definition is_generation_call :: "event \<Rightarrow> bool" where
  "is_generation_call e =
     (case e of GenerateContent m p \<Rightarrow> True | GenerateContentStream m p \<Rightarrow> True
      | VisionGenerateContent k d t p \<Rightarrow> True | _ \<Rightarrow> False)"


subsection \<open>Small JavaScript idioms\<close>

text \<open>\<open>a || b\<close> on strings: the empty string is falsy. \<open>or_default\<close> is the same for a
  value that may be \<open>undefined\<close>.\<close>

definition or_string :: "string \<Rightarrow> string \<Rightarrow> string" where
  "or_string a b = (if a \<noteq> [] then a else b)"

definition or_default :: "string option \<Rightarrow> string \<Rightarrow> string" where
  "or_default a b = (case a of Some x \<Rightarrow> or_string x b | None \<Rightarrow> b)"

text \<open>A number in a template literal: decimal digits, with a sign when negative.\<close>

definition digit_char :: "nat \<Rightarrow> char" where
  "digit_char d = ''0123456789'' ! d"

fun show_nat :: "nat \<Rightarrow> string" where
  "show_nat n = (if n < 10 then [digit_char n] else show_nat (n div 10) @ [digit_char (n mod 10)])"

declare show_nat.simps [simp del]

definition show_int :: "int \<Rightarrow> string" where
  "show_int i = (if i < 0 then CHR ''-'' # show_nat (nat (- i)) else show_nat (nat i))"

definition show_code :: "int option \<Rightarrow> string" where
  "show_code c = (case c of None \<Rightarrow> ''null'' | Some i \<Rightarrow> show_int i)"

text \<open>\<open>chalk.yellow\<close>: the text between two escape sequences when colours are on.\<close>

definition chalk_yellow :: "bool \<Rightarrow> string \<Rightarrow> string" where
  "chalk_yellow on s = (if on then [CHR 0x1B] @ ''[33m'' @ s @ [CHR 0x1B] @ ''[39m'' else s)"

text \<open>Characters outside ASCII in the program's messages, as their UTF-8 bytes.\<close>

definition warning_sign :: string where
  "warning_sign = [CHR 0xE2, CHR 0x9A, CHR 0xA0, CHR 0xEF, CHR 0xB8, CHR 0x8F]"

definition robot_face :: string where
  "robot_face = [CHR 0xF0, CHR 0x9F, CHR 0xA4, CHR 0x96]"

definition laptop :: string where
  "laptop = [CHR 0xF0, CHR 0x9F, CHR 0x92, CHR 0xBB]"

definition bullet :: string where
  "bullet = [CHR 0xE2, CHR 0x80, CHR 0xA2]"

subsection \<open>The terminal object\<close>

record TerminalConfig =
  cfg_apiKey :: "string option"
  cfg_model :: "string option"

text \<open>
  \<open>genAI\<close> is the client (known by the key it was made with), \<open>model\<close> the model handle,
  \<open>terminal_history\<close> the field \<open>history\<close>, and \<open>env_GEMINI_API_KEY\<close> the process
  environment variable that \<open>setupAI\<close> writes.
\<close>

record AITerminal =
  genAI :: "string option"
  model :: "ModelHandle option"
  terminal_history :: TerminalHistory
  config :: TerminalConfig
  env_GEMINI_API_KEY :: "string option"

definition make_model :: "TerminalConfig \<Rightarrow> string \<Rightarrow> ModelHandle" where
  "make_model cfg key =
     \<lparr>handle_apiKey = key, handle_model = or_default (cfg_model cfg) ''gemini-2.5-flash''\<rparr>"

definition new_AITerminal :: "TerminalConfig \<Rightarrow> string option \<Rightarrow> AITerminal" where
  "new_AITerminal cfg env_key =
     (let apiKey = (case cfg_apiKey cfg of
                      Some k \<Rightarrow> (if k \<noteq> [] then Some k else env_key)
                    | None \<Rightarrow> env_key);
          this = \<lparr>genAI = None, model = None, terminal_history = new_TerminalHistory,
                  config = cfg, env_GEMINI_API_KEY = env_key\<rparr>
      in case apiKey of
           None \<Rightarrow> this
         | Some k \<Rightarrow>
             (if k \<noteq> [] \<and> validateApiKey (Some k) env_key
              then this\<lparr>genAI := Some k, model := Some (make_model cfg k)\<rparr>
              else this))"

definition setupAI :: "AITerminal \<Rightarrow> string \<Rightarrow> AITerminal" where
  "setupAI this apiKey =
     this\<lparr>env_GEMINI_API_KEY := Some apiKey, genAI := Some apiKey,
          model := Some (make_model (config this) apiKey)\<rparr>"

definition helpText :: string where
  "helpText = concat (map (\<lambda>l. l @ [CHR 0x0A])
     [[],
      ''AI Terminal - Hybrid Shell + AI Assistant'',
      [],
      robot_face @ '' AI Commands:'',
      bullet @ '' explain <text>       - Get AI explanation of any text or concept'',
      bullet @ '' generate <request>   - Generate code, text, or solutions'',
      bullet @ '' summarize <text>     - Summarize long text or content'',
      bullet @ '' vision <image_path>  - Analyze images (describe, extract text, etc.)'',
      bullet @ '' clear               - Clear terminal output'',
      bullet @ '' help                - Show this help message'',
      [],
      laptop @ '' Shell Commands:'',
      bullet @ '' Any regular terminal command (ls, cd, git, npm, etc.)'',
      bullet @ '' Full shell functionality with AI assistance'',
      [],
      ''Examples:'',
      bullet @ '' ls -la'',
      bullet @ '' git status'',
      bullet @ '' explain '' @ [CHR 0x22] @ ''what is machine learning'' @ [CHR 0x22],
      bullet @ '' generate '' @ [CHR 0x22] @ ''a Python function to sort an array'' @ [CHR 0x22],
      bullet @ '' npm install express'',
      [],
      ''Note: AI features will prompt for Gemini API key if not set.''])"

definition handleHelp :: CommandResult where
  "handleHelp = \<lparr>success = True, result_output = helpText, error = None\<rparr>"

definition thrown_message :: "thrown \<Rightarrow> string \<Rightarrow> string" where
  "thrown_message t fallback = (case t of Error m \<Rightarrow> m | NonError \<Rightarrow> fallback)"

definition callGeminiAPI :: "World \<Rightarrow> AITerminal \<Rightarrow> string \<Rightarrow> CommandResult \<times> event list" where
  "callGeminiAPI w this prompt =
     (case model this of
        None \<Rightarrow>
          (\<lparr>success = False,
            result_output = ''AI not initialized. Use an AI command to set up API key.'',
            error = Some ''No API key''\<rparr>, [])
      | Some m \<Rightarrow>
          (case generateContent w m prompt of
             Inr out \<Rightarrow> (\<lparr>success = True, result_output = out, error = None\<rparr>,
                         [GenerateContent m prompt])
           | Inl t \<Rightarrow>
               (let errorMessage = thrown_message t ''API call failed''
                in (\<lparr>success = False, result_output = ''AI Error: '' @ errorMessage,
                     error = Some errorMessage\<rparr>, [GenerateContent m prompt]))))"

definition explain_prompt :: "string \<Rightarrow> string" where
  "explain_prompt text =
     ''Explain this in 2-3 lines max, concise and technical:'' @ [CHR 0x0A, CHR 0x0A] @ text"

definition generate_prompt :: "string \<Rightarrow> string" where
  "generate_prompt request =
     ''Generate clean code only, no explanations unless essential. Keep it minimal:''
       @ [CHR 0x0A, CHR 0x0A] @ request"

definition summarize_prompt :: "string \<Rightarrow> string" where
  "summarize_prompt text =
     ''Summarize in 2-3 lines max, key points only:'' @ [CHR 0x0A, CHR 0x0A] @ text"

definition handleExplain :: "World \<Rightarrow> AITerminal \<Rightarrow> string \<Rightarrow> CommandResult \<times> event list" where
  "handleExplain w this text =
     (if text = [] then
        (\<lparr>success = False,
          result_output = ''Please provide text to explain. Usage: explain <text>'',
          error = Some ''Missing text''\<rparr>, [])
      else callGeminiAPI w this (explain_prompt text))"

definition handleGenerate :: "World \<Rightarrow> AITerminal \<Rightarrow> string \<Rightarrow> CommandResult \<times> event list" where
  "handleGenerate w this request =
     (if request = [] then
        (\<lparr>success = False,
          result_output = ''Please provide a generation request. Usage: generate <request>'',
          error = Some ''Missing request''\<rparr>, [])
      else callGeminiAPI w this (generate_prompt request))"

definition handleSummarize :: "World \<Rightarrow> AITerminal \<Rightarrow> string \<Rightarrow> CommandResult \<times> event list" where
  "handleSummarize w this text =
     (if text = [] then
        (\<lparr>success = False,
          result_output = ''Please provide text to summarize. Usage: summarize <text>'',
          error = Some ''Missing text''\<rparr>, [])
      else callGeminiAPI w this (summarize_prompt text))"

definition handleAICommand ::
  "World \<Rightarrow> AITerminal \<Rightarrow> string \<Rightarrow> string \<Rightarrow> CommandResult \<times> event list" where
  "handleAICommand w this cmd args =
     (if cmd = ''explain'' then handleExplain w this args
      else if cmd = ''generate'' then handleGenerate w this args
      else if cmd = ''summarize'' then handleSummarize w this args
      else (\<lparr>success = False, result_output = ''Unknown AI command'',
             error = Some ''Unknown command''\<rparr>, []))"

definition mimeTypes :: "(string \<times> string) list" where
  "mimeTypes = [(''.jpg'', ''image/jpeg''), (''.jpeg'', ''image/jpeg''), (''.png'', ''image/png''),
                (''.gif'', ''image/gif''), (''.webp'', ''image/webp'')]"

definition getMimeType :: "string \<Rightarrow> string" where
  "getMimeType extension =
     (case map_of mimeTypes (toLowerCase extension) of
        Some t \<Rightarrow> or_string t ''image/jpeg'' | None \<Rightarrow> ''image/jpeg'')"

definition vision_prompt :: string where
  "vision_prompt = ''Analyze this image and provide: 1) A detailed description, 2) Any text you can extract, 3) Technical details if it's a diagram/code/screenshot''"

text \<open>
  \<open>handleVision\<close>: the file's bytes go to the collaborator as they are (their base64
  rendering is the client library's concern).
\<close>

definition handleVision :: "World \<Rightarrow> AITerminal \<Rightarrow> string \<Rightarrow> CommandResult \<times> event list" where
  "handleVision w this imagePath =
     (if imagePath = [] then
        (\<lparr>success = False,
          result_output = ''Please provide an image path. Usage: vision <image_path>'',
          error = Some ''Missing image path''\<rparr>, [])
      else if \<not> existsSync w imagePath then
        (\<lparr>success = False, result_output = ''Image file not found: '' @ imagePath,
          error = Some ''File not found''\<rparr>, [ExistsSync imagePath])
      else
        (let caught = (\<lambda>t. let errorMessage = thrown_message t ''Vision analysis failed''
                            in \<lparr>success = False,
                                result_output = ''Vision error: '' @ errorMessage,
                                error = Some errorMessage\<rparr>)
         in case readFileSync w imagePath of
              Inl t \<Rightarrow> (caught t, [ExistsSync imagePath, ReadFileSync imagePath])
            | Inr imageData \<Rightarrow>
                (let mimeType = getMimeType (extname w imagePath) in
                 case genAI this of
                   None \<Rightarrow>
                     (\<lparr>success = False, result_output = ''AI not initialized'',
                       error = Some ''No API key''\<rparr>,
                      [ExistsSync imagePath, ReadFileSync imagePath])
                 | Some key \<Rightarrow>
                     (let evs = [ExistsSync imagePath, ReadFileSync imagePath,
                                 VisionGenerateContent key imageData mimeType vision_prompt]
                      in case visionGenerateContent w key imageData mimeType vision_prompt of
                           Inr out \<Rightarrow> (\<lparr>success = True, result_output = out, error = None\<rparr>, evs)
                         | Inl t \<Rightarrow> (caught t, evs)))))"

definition handleClear :: "AITerminal \<Rightarrow> CommandResult \<times> AITerminal" where
  "handleClear this =
     (\<lparr>success = True, result_output = ''Terminal cleared.'', error = None\<rparr>,
      this\<lparr>terminal_history := clear (terminal_history this)\<rparr>)"

definition executeShellCommand :: "World \<Rightarrow> string \<Rightarrow> CommandResult \<times> event list" where
  "executeShellCommand w cmd =
     (case spawn_sh w cmd of
        Closed code out err \<Rightarrow>
          (let output = concat out; error = concat err in
           if code = Some 0 then
             (\<lparr>success = True,
               result_output = or_string (trim output) ''Command executed successfully'',
               error = None\<rparr>, [Spawn cmd])
           else
             (\<lparr>success = False,
               result_output = or_string (trim error) (''Command failed with code '' @ show_code code),
               error = Some (trim error)\<rparr>, [Spawn cmd]))
      | SpawnError msg \<Rightarrow>
          (\<lparr>success = False, result_output = ''Error: '' @ msg, error = Some msg\<rparr>, [Spawn cmd]))"

text \<open>\<open>promptForApiKey\<close>: \<open>null\<close> is \<open>None\<close>; a prompt that throws is \<open>Inl\<close>.\<close>

definition promptForApiKey :: "World \<Rightarrow> thrown + string option" where
  "promptForApiKey w =
     (case question w of
        Inl t \<Rightarrow> Inl t
      | Inr apiKey \<Rightarrow>
          (let trimmedKey = trim apiKey in
           if trimmedKey = [] then Inr None
           else if js_length trimmedKey < 20 then Inr None
           else Inr (Some trimmedKey)))"

definition no_key_result :: "World \<Rightarrow> CommandResult" where
  "no_key_result w =
     \<lparr>success = False,
      result_output = chalk_yellow (colour w)
        (warning_sign @ ''  AI features require a valid Gemini API key. Shell commands will continue to work normally.''),
      error = Some ''No API key''\<rparr>"

text \<open>The \<open>catch\<close> block of \<open>executeCommand\<close>.\<close>

definition caught_result :: "thrown \<Rightarrow> CommandResult" where
  "caught_result t =
     (let errorMessage = thrown_message t ''Unknown error occurred''
      in \<lparr>success = False, result_output = ''Error: '' @ errorMessage,
          error = Some errorMessage\<rparr>)"

text \<open>
  The block \<open>if (!this.model) { ... }\<close> that opens both AI branches of the switch: it
  either leaves \<open>executeCommand\<close> with a result (\<open>Inl\<close>) or goes on with the terminal,
  set up if a key was given (\<open>Inr\<close>).
\<close>

definition require_model :: "World \<Rightarrow> AITerminal \<Rightarrow> (CommandResult + AITerminal) \<times> event list" where
  "require_model w this =
     (case model this of
        Some m \<Rightarrow> (Inr this, [])
      | None \<Rightarrow>
          (case promptForApiKey w of
             Inl t \<Rightarrow> (Inl (caught_result t), [Question])
           | Inr None \<Rightarrow> (Inl (no_key_result w), [Question])
           | Inr (Some apiKey) \<Rightarrow> (Inr (setupAI this apiKey), [Question])))"

text \<open>The lines after the switch: \<open>if (result.success && result.output) history.add(...)\<close>.\<close>

definition log_result :: "World \<Rightarrow> AITerminal \<Rightarrow> string \<Rightarrow> CommandResult \<Rightarrow> AITerminal" where
  "log_result w this fullCommand result =
     (if success result \<and> result_output result \<noteq> []
      then this\<lparr>terminal_history :=
                  add (terminal_history this) fullCommand (result_output result) (now w)\<rparr>
      else this)"

definition executeCommand ::
  "World \<Rightarrow> AITerminal \<Rightarrow> string \<Rightarrow> CommandResult \<times> AITerminal \<times> event list" where
  "executeCommand w this input =
     (let (cmd, args) = parseCommand input;
          fullCommand = trim input
      in
      if cmd = ''help'' then
        (let result = handleHelp in (result, log_result w this fullCommand result, []))
      else if cmd = ''explain'' \<or> cmd = ''generate'' \<or> cmd = ''summarize'' then
        (case require_model w this of
           (Inl early, evs) \<Rightarrow> (early, this, evs)
         | (Inr this', evs) \<Rightarrow>
             (let (result, evs') = handleAICommand w this' cmd args
              in (result, log_result w this' fullCommand result, evs @ evs')))
      else if cmd = ''vision'' then
        (case require_model w this of
           (Inl early, evs) \<Rightarrow> (early, this, evs)
         | (Inr this', evs) \<Rightarrow>
             (let (result, evs') = handleVision w this' args
              in (result, log_result w this' fullCommand result, evs @ evs')))
      else if cmd = ''clear'' then
        (let (result, this') = handleClear this
         in (result, log_result w this' fullCommand result, []))
      else if cmd = [] then
        (let result = \<lparr>success = True, result_output = [], error = None\<rparr>
         in (result, log_result w this fullCommand result, []))
      else
        (let (result, evs) = executeShellCommand w fullCommand
         in (result, log_result w this fullCommand result, evs)))"

text \<open>
  \<open>streamResponse\<close>, run to the end: the fragments it yields, in order. The stream of
  the collaborator is a finite list of chunks, possibly ended by a throw.
\<close>

definition stream_error :: "thrown \<Rightarrow> string" where
  "stream_error t = ''Error: '' @ thrown_message t ''Unknown error''"

definition streamResponse ::
  "World \<Rightarrow> AITerminal \<Rightarrow> string \<Rightarrow> string list \<times> AITerminal \<times> event list" where
  "streamResponse w this input =
     (let (cmd, args) = parseCommand input in
      if cmd \<notin> set [''explain'', ''generate'', ''summarize''] then
        (let (result, this', evs) = executeCommand w this input
         in ([result_output result], this', evs))
      else
        (case model this of
           None \<Rightarrow>
             ([''Error: AI not initialized. Use an AI command to set up API key.''], this, [])
         | Some m \<Rightarrow>
             (let prompt = (if cmd = ''explain'' then explain_prompt args
                            else if cmd = ''generate'' then generate_prompt args
                            else if cmd = ''summarize'' then summarize_prompt args
                            else [])
              in case generateContentStream w m prompt of
                   Inl t \<Rightarrow> ([stream_error t], this, [GenerateContentStream m prompt])
                 | Inr (chunks, None) \<Rightarrow> (chunks, this, [GenerateContentStream m prompt])
                 | Inr (chunks, Some t) \<Rightarrow>
                     (chunks @ [stream_error t], this, [GenerateContentStream m prompt]))))"

text \<open>The case labels of the switch in \<open>executeCommand\<close>; any other verb goes to the shell.\<close>

definition builtin_verbs :: "string list" where
  "builtin_verbs = [''help'', ''explain'', ''generate'', ''summarize'', ''vision'', ''clear'', []]"

subsection \<open>A stub world and a configured terminal, for concrete runs\<close>

definition stub_spawn :: "string \<Rightarrow> shell_outcome" where
  "stub_spawn cmd =
     (if cmd = ''echo hi'' then Closed (Some 0) [''hi'' @ [CHR 0x0A]] []
      else if cmd = ''exit 7'' then Closed (Some 7) [] []
      else SpawnError ''spawn sh ENOENT'')"

definition stub_world :: World where
  "stub_world =
     \<lparr>question = Inr ''short-key'',
      generateContent = (\<lambda>m p. Inr ''ok''),
      generateContentStream = (\<lambda>m p. Inr ([''o'', ''k''], None)),
      visionGenerateContent = (\<lambda>k d t p. Inr ''a picture''),
      existsSync = (\<lambda>p. False),
      readFileSync = (\<lambda>p. Inl (Error ''ENOENT'')),
      extname = (\<lambda>p. []),
      spawn_sh = stub_spawn,
      now = 0,
      colour = False\<rparr>"

definition configured_terminal :: AITerminal where
  "configured_terminal =
     new_AITerminal \<lparr>cfg_apiKey = Some ''0123456789abcdefghij'', cfg_model = None\<rparr> None"

definition fresh_terminal :: AITerminal where
  "fresh_terminal = new_AITerminal \<lparr>cfg_apiKey = None, cfg_model = None\<rparr> None"

section \<open>Facts about the string primitives\<close>

lemma indexOf_lower: "- 1 \<le> indexOf s c"
  by (induction s) (auto simp: Let_def)

lemma indexOf_absent: "indexOf s c = - 1 \<longleftrightarrow> c \<notin> set s"
proof (induction s)
  case Nil
  show ?case by simp
next
  case (Cons x xs)
  have "indexOf xs c + 1 \<noteq> - 1" using indexOf_lower [of xs c] by arith
  with Cons show ?case by (auto simp: Let_def)
qed

lemma indexOf_present:
  "c \<in> set s \<Longrightarrow> indexOf s c = int (length (takeWhile (\<lambda>x. x \<noteq> c) s))"
  by (induction s) (auto simp: Let_def indexOf_absent)

lemma substring_prefix: "substring s 0 (int n) = take n s"
  by (simp add: substring_def clamp_index_def Let_def min_def)

lemma substring_from_nat: "substring_from s (int n) = drop n s"
  by (simp add: substring_from_def clamp_index_def min_def)

lemma trim_Nil: "trim [] = []"
  by (simp add: trim_def)





lemma set_trim: "set (trim s) \<subseteq> set s"
proof
  fix c
  assume "c \<in> set (trim s)"
  then have "c \<in> set (dropWhile is_space (rev (dropWhile is_space s)))"
    by (simp add: trim_def)
  then have "c \<in> set (rev (dropWhile is_space s))" by (rule set_dropWhileD)
  then have "c \<in> set (dropWhile is_space s)" by simp
  then show "c \<in> set s" by (rule set_dropWhileD)
qed



lemma replace_newlines_free: "c \<in> set (replace_newlines s) \<Longrightarrow> \<not> is_newline c"
  by (induction s rule: replace_newlines.induct) (auto simp: is_newline_def split: if_splits)

lemma set_replace_newlines: "c \<in> set (replace_newlines s) \<Longrightarrow> c = CHR 0x20 \<or> c \<in> set s"
  by (induction s rule: replace_newlines.induct) (auto split: if_splits dest: set_dropWhileD)


lemma parse_split:
  "parseCommand input =
     (toLowerCase (takeWhile (\<lambda>c. c \<noteq> CHR 0x20) (sanitizeInput input)),
      trim (drop 1 (dropWhile (\<lambda>c. c \<noteq> CHR 0x20) (sanitizeInput input))))"
proof (cases "CHR 0x20 \<in> set (sanitizeInput input)")
  case True
  define s where "s = sanitizeInput input"
  define n where "n = length (takeWhile (\<lambda>c. c \<noteq> CHR 0x20) s)"
  have idx: "indexOf s (CHR 0x20) = int n"
    using True by (simp add: indexOf_present s_def n_def)
  have a: "substring s 0 (int n) = takeWhile (\<lambda>c. c \<noteq> CHR 0x20) s"
    unfolding substring_prefix n_def by (rule takeWhile_eq_take [symmetric])
  have "int n + 1 = int (Suc n)" by simp
  then have b: "substring_from s (int n + 1) = drop 1 (dropWhile (\<lambda>c. c \<noteq> CHR 0x20) s)"
    unfolding n_def
    by (simp only: substring_from_nat drop_Suc One_nat_def drop_0 drop_tl
        dropWhile_eq_drop [symmetric])
  have "parseCommand input =
          (toLowerCase (substring s 0 (int n)), trim (substring_from s (int n + 1)))"
    using idx by (simp add: parseCommand_def Let_def s_def [symmetric])
  with a b show ?thesis unfolding s_def by simp
next
  case False
  then have all: "\<forall>x\<in>set (sanitizeInput input). x \<noteq> CHR 0x20" by auto
  have t: "takeWhile (\<lambda>c. c \<noteq> CHR 0x20) (sanitizeInput input) = sanitizeInput input"
    using all by (simp only: takeWhile_eq_all_conv)
  have d: "dropWhile (\<lambda>c. c \<noteq> CHR 0x20) (sanitizeInput input) = []"
    using all by (simp only: dropWhile_eq_Nil_conv)
  have "parseCommand input = (toLowerCase (sanitizeInput input), [])"
    using False by (simp add: parseCommand_def Let_def indexOf_absent)
  then show ?thesis by (simp only: t d drop_Nil trim_Nil)
qed

lemma parse_no_space:
  "CHR 0x20 \<notin> set (sanitizeInput input) \<Longrightarrow>
   parseCommand input = (toLowerCase (sanitizeInput input), [])"
  by (simp add: parseCommand_def Let_def indexOf_absent)

lemma sanitized_blank_only:
  assumes "\<forall>c\<in>set input. is_space c \<longrightarrow> c = CHR 0x20 \<or> is_newline c"
  shows "\<forall>c\<in>set (sanitizeInput input). is_space c \<longleftrightarrow> c = CHR 0x20"
proof
  fix c
  assume c: "c \<in> set (sanitizeInput input)"
  then have nl: "\<not> is_newline c" unfolding sanitizeInput_def by (rule replace_newlines_free)
  from c have "c = CHR 0x20 \<or> c \<in> set (trim input)"
    unfolding sanitizeInput_def by (rule set_replace_newlines)
  then have mem: "c = CHR 0x20 \<or> c \<in> set input" using set_trim [of input] by blast
  show "is_space c \<longleftrightarrow> c = CHR 0x20"
  proof
    assume sp: "is_space c"
    show "c = CHR 0x20"
    proof (rule ccontr)
      assume "c \<noteq> CHR 0x20"
      with mem have "c \<in> set input" by simp
      with assms sp have "c = CHR 0x20 \<or> is_newline c" by blast
      with nl \<open>c \<noteq> CHR 0x20\<close> show False by simp
    qed
  next
    assume "c = CHR 0x20"
    then show "is_space c" by (simp add: is_space_def)
  qed
qed

lemma parse_agrees_with_spec_route:
  assumes "\<forall>c\<in>set input. is_space c \<longrightarrow> c = CHR 0x20 \<or> is_newline c"
  shows "parseCommand input = spec_route input"
proof -
  let ?s = "sanitizeInput input"
  from sanitized_blank_only [OF assms]
  have eq: "\<And>c. c \<in> set ?s \<Longrightarrow> (\<not> is_space c) = (c \<noteq> CHR 0x20)" by simp
  have t: "takeWhile (\<lambda>c. \<not> is_space c) ?s = takeWhile (\<lambda>c. c \<noteq> CHR 0x20) ?s"
    by (rule takeWhile_cong [OF refl eq])
  have d: "dropWhile (\<lambda>c. \<not> is_space c) ?s = dropWhile (\<lambda>c. c \<noteq> CHR 0x20) ?s"
    by (rule dropWhile_cong [OF refl eq])
  show ?thesis
    unfolding spec_route_def Let_def t d by (rule parse_split)
qed

section \<open>Facts about the history object\<close>

lemma getPrevious_safe:
  "cursor_in_range h \<Longrightarrow>
   \<exists>r h'. getPrevious h = Inr (r, h') \<and> history h' = history h \<and> cursor_in_range h'
      \<and> (cursor_nonneg_if_filled h \<longrightarrow> cursor_nonneg_if_filled h')"
  by (auto simp: getPrevious_def cursor_in_range_def cursor_nonneg_if_filled_def
      js_index_def Let_def)

lemma getNext_safe:
  "cursor_in_range h \<Longrightarrow>
   \<exists>r h'. getNext h = Inr (r, h') \<and> history h' = history h \<and> cursor_in_range h'
      \<and> (cursor_nonneg_if_filled h \<longrightarrow> cursor_nonneg_if_filled h')"
  by (auto simp: getNext_def cursor_in_range_def cursor_nonneg_if_filled_def
      js_index_def Let_def)

lemma add_cursor:
  "cursor_in_range (add h c out t) \<and> cursor_nonneg_if_filled (add h c out t)
     \<and> 0 < currentIndex (add h c out t)"
  by (simp add: add_def cursor_in_range_def cursor_nonneg_if_filled_def Let_def)

lemma clear_cursor: "cursor_in_range (clear h) \<and> cursor_nonneg_if_filled (clear h)"
  by (simp add: clear_def cursor_in_range_def cursor_nonneg_if_filled_def)

lemma new_cursor:
  "cursor_in_range new_TerminalHistory \<and> cursor_nonneg_if_filled new_TerminalHistory"
  by (simp add: new_TerminalHistory_def cursor_in_range_def cursor_nonneg_if_filled_def)

lemma history_step_safe:
  assumes "cursor_in_range h"
  shows "\<exists>h'. history_step op h = Inr h' \<and> cursor_in_range h'
      \<and> (cursor_nonneg_if_filled h \<longrightarrow> cursor_nonneg_if_filled h')"
proof (cases op)
  case (Add c out t)
  then show ?thesis using add_cursor [of h c out t] by (simp add: history_step_def)
next
  case GetPrevious
  then show ?thesis using getPrevious_safe [OF assms] by (auto simp: history_step_def)
next
  case GetNext
  then show ?thesis using getNext_safe [OF assms] by (auto simp: history_step_def)
next
  case GetAll
  then show ?thesis using assms by (simp add: history_step_def)
next
  case Clear
  then show ?thesis using clear_cursor [of h] by (simp add: history_step_def)
qed

lemma history_run_safe:
  "cursor_in_range h \<Longrightarrow> cursor_nonneg_if_filled h \<Longrightarrow>
   \<exists>h'. history_run ops h = Inr h' \<and> cursor_in_range h' \<and> cursor_nonneg_if_filled h'"
proof (induction ops arbitrary: h)
  case Nil
  then show ?case by simp
next
  case (Cons op ops)
  from history_step_safe [OF Cons.prems(1), of op] Cons.prems(2)
  obtain h1 where s: "history_step op h = Inr h1"
    and i: "cursor_in_range h1" "cursor_nonneg_if_filled h1"
    by blast
  from Cons.IH [OF i] s show ?case by simp
qed

section \<open>Facts about the dispatcher\<close>

lemma exec_help:
  "parseCommand input = (''help'', args) \<Longrightarrow>
   executeCommand w this input = (handleHelp, log_result w this (trim input) handleHelp, [])"
  by (simp add: executeCommand_def Let_def)

lemma exec_ai:
  assumes "parseCommand input = (cmd, args)"
    and "cmd = ''explain'' \<or> cmd = ''generate'' \<or> cmd = ''summarize''"
  shows "executeCommand w this input =
     (case require_model w this of
        (Inl early, evs) \<Rightarrow> (early, this, evs)
      | (Inr this', evs) \<Rightarrow>
          (let (result, evs') = handleAICommand w this' cmd args
           in (result, log_result w this' (trim input) result, evs @ evs')))"
  using assms by (auto simp: executeCommand_def Let_def)

lemma exec_vision:
  assumes "parseCommand input = (''vision'', args)"
  shows "executeCommand w this input =
     (case require_model w this of
        (Inl early, evs) \<Rightarrow> (early, this, evs)
      | (Inr this', evs) \<Rightarrow>
          (let (result, evs') = handleVision w this' args
           in (result, log_result w this' (trim input) result, evs @ evs')))"
  using assms by (simp add: executeCommand_def Let_def)

lemma exec_clear:
  "parseCommand input = (''clear'', args) \<Longrightarrow>
   executeCommand w this input =
     (fst (handleClear this),
      log_result w (snd (handleClear this)) (trim input) (fst (handleClear this)), [])"
  by (simp add: executeCommand_def Let_def case_prod_beta)

lemma exec_empty:
  "parseCommand input = ([], args) \<Longrightarrow>
   executeCommand w this input = (\<lparr>success = True, result_output = [], error = None\<rparr>, this, [])"
  by (simp add: executeCommand_def Let_def log_result_def)

lemma exec_shell:
  "parseCommand input = (cmd, args) \<Longrightarrow> cmd \<notin> set builtin_verbs \<Longrightarrow>
   executeCommand w this input =
     (fst (executeShellCommand w (trim input)),
      log_result w this (trim input) (fst (executeShellCommand w (trim input))),
      snd (executeShellCommand w (trim input)))"
  by (simp add: executeCommand_def Let_def builtin_verbs_def case_prod_beta)

lemma log_result_history:
  "terminal_history (log_result w this fc r) =
     (if success r \<and> result_output r \<noteq> []
      then add (terminal_history this) fc (result_output r) (now w)
      else terminal_history this)"
  by (simp add: log_result_def)

lemma require_model_cases:
  "require_model w this = (x, evs) \<Longrightarrow>
     (case x of Inl early \<Rightarrow> \<not> success early \<and> model this = None \<and> evs = [Question]
      | Inr this' \<Rightarrow> terminal_history this' = terminal_history this
           \<and> (evs = [] \<or> evs = [Question]))"
  by (auto simp: require_model_def caught_result_def no_key_result_def setupAI_def Let_def
      split: option.splits sum.splits)


lemma exec_history:
  "terminal_history (fst (snd (executeCommand w this input))) =
     (let base = (if fst (parseCommand input) = ''clear'' then clear (terminal_history this)
                  else terminal_history this);
          result = fst (executeCommand w this input)
      in if success result \<and> result_output result \<noteq> []
         then add base (trim input) (result_output result) (now w) else base)"
proof -
  obtain cmd args where p: "parseCommand input = (cmd, args)" by (cases "parseCommand input")
  obtain x evs where r: "require_model w this = (x, evs)" by (cases "require_model w this")
  note rc = require_model_cases [OF r]
  consider (c_help) "cmd = ''help''"
    | (c_ai) "cmd = ''explain'' \<or> cmd = ''generate'' \<or> cmd = ''summarize''"
    | (c_vision) "cmd = ''vision''"
    | (c_clear) "cmd = ''clear''"
    | (c_empty) "cmd = []"
    | (c_shell) "cmd \<notin> set builtin_verbs"
    by (auto simp: builtin_verbs_def)
  then show ?thesis
  proof cases
    case c_help
    then show ?thesis using p by (simp add: exec_help log_result_history Let_def)
  next
    case c_ai
    have "cmd \<noteq> ''clear''" using c_ai by auto
    then show ?thesis
      using rc by (cases x) (simp_all add: exec_ai [OF p c_ai] p r log_result_history case_prod_beta Let_def)
  next
    case c_vision
    then show ?thesis
      using rc p
      by (cases x) (simp_all add: exec_vision r log_result_history case_prod_beta Let_def)
  next
    case c_clear
    then show ?thesis using p by (simp add: exec_clear log_result_history handleClear_def Let_def)
  next
    case c_empty
    then show ?thesis using p by (simp add: exec_empty Let_def)
  next
    case c_shell
    then have "cmd \<noteq> ''clear''" by (auto simp: builtin_verbs_def)
    then show ?thesis using p by (simp add: exec_shell [OF p c_shell] log_result_history Let_def)
  qed
qed









lemma require_model_configured: "model this = Some m \<Longrightarrow> require_model w this = (Inr this, [])"
  by (simp add: require_model_def)


lemma exec_configured_ai:
  assumes "parseCommand input = (cmd, args)"
    and "cmd = ''explain'' \<or> cmd = ''generate'' \<or> cmd = ''summarize''"
    and "model this = Some m"
  shows "executeCommand w this input =
     (fst (handleAICommand w this cmd args),
      log_result w this (trim input) (fst (handleAICommand w this cmd args)),
      snd (handleAICommand w this cmd args))"
  by (simp add: exec_ai [OF assms(1,2)] require_model_configured [OF assms(3)] case_prod_beta)

lemma exec_configured_vision:
  assumes "parseCommand input = (''vision'', args)" and "model this = Some m"
  shows "executeCommand w this input =
     (fst (handleVision w this args),
      log_result w this (trim input) (fst (handleVision w this args)),
      snd (handleVision w this args))"
  by (simp add: exec_vision [OF assms(1)] require_model_configured [OF assms(2)] case_prod_beta)

lemma question_is_no_generation: "\<not> is_generation_call Question"
  by (simp add: is_generation_call_def)

lemma require_model_no_generation:
  "\<not> list_ex is_generation_call (snd (require_model w this))"
  by (simp add: require_model_def is_generation_call_def split: option.splits sum.splits)

lemma handleAICommand_empty_argument:
  "handleAICommand w this ''explain'' [] =
     (\<lparr>success = False,
       result_output = ''Please provide text to explain. Usage: explain <text>'',
       error = Some ''Missing text''\<rparr>, [])"
  "handleAICommand w this ''generate'' [] =
     (\<lparr>success = False,
       result_output = ''Please provide a generation request. Usage: generate <request>'',
       error = Some ''Missing request''\<rparr>, [])"
  "handleAICommand w this ''summarize'' [] =
     (\<lparr>success = False,
       result_output = ''Please provide text to summarize. Usage: summarize <text>'',
       error = Some ''Missing text''\<rparr>, [])"
  by (simp_all add: handleAICommand_def handleExplain_def handleGenerate_def handleSummarize_def)

lemma handleAICommand_empty_fails:
  assumes "cmd = ''explain'' \<or> cmd = ''generate'' \<or> cmd = ''summarize''"
  shows "\<not> success (fst (handleAICommand w this cmd [])) \<and> snd (handleAICommand w this cmd []) = []"
  using assms handleAICommand_empty_argument [of w this] by auto

lemma exec_ai_empty_argument:
  assumes p: "parseCommand input = (cmd, [])"
    and c: "cmd = ''explain'' \<or> cmd = ''generate'' \<or> cmd = ''summarize''"
  shows "\<not> list_ex is_generation_call (snd (snd (executeCommand w this input)))"
    and "model this \<noteq> None \<Longrightarrow>
         executeCommand w this input = (fst (handleAICommand w this cmd []), this, [])"
proof -
  obtain x evs where r: "require_model w this = (x, evs)" by (cases "require_model w this")
  have e: "\<not> list_ex is_generation_call evs"
    using require_model_no_generation [of w this] r by simp
  show "\<not> list_ex is_generation_call (snd (snd (executeCommand w this input)))"
  proof (cases x)
    case (Inl early)
    then show ?thesis using e by (simp add: exec_ai [OF p c] r)
  next
    case (Inr this')
    then show ?thesis
      using e handleAICommand_empty_fails [OF c, of w this']
      by (simp add: exec_ai [OF p c] r case_prod_beta)
  qed
  show "executeCommand w this input = (fst (handleAICommand w this cmd []), this, [])"
    if "model this \<noteq> None"
  proof -
    from that obtain m where m: "model this = Some m" by blast
    show ?thesis
      using handleAICommand_empty_fails [OF c, of w this]
      by (simp add: exec_configured_ai [OF p c m] log_result_def)
  qed
qed

lemma handleVision_missing_file:
  assumes "imagePath \<noteq> []" and "\<not> existsSync w imagePath"
  shows "handleVision w this imagePath =
     (\<lparr>success = False, result_output = ''Image file not found: '' @ imagePath,
       error = Some ''File not found''\<rparr>, [ExistsSync imagePath])"
  using assms by (simp add: handleVision_def)

lemma exec_vision_missing_file:
  assumes p: "parseCommand input = (''vision'', imagePath)"
    and f: "imagePath \<noteq> []" "\<not> existsSync w imagePath"
  shows "\<not> list_ex is_generation_call (snd (snd (executeCommand w this input)))"
    and "model this \<noteq> None \<Longrightarrow>
         executeCommand w this input =
           (\<lparr>success = False, result_output = ''Image file not found: '' @ imagePath,
             error = Some ''File not found''\<rparr>, this, [ExistsSync imagePath])"
proof -
  obtain x evs where r: "require_model w this = (x, evs)" by (cases "require_model w this")
  have e: "\<not> list_ex is_generation_call evs"
    using require_model_no_generation [of w this] r by simp
  show "\<not> list_ex is_generation_call (snd (snd (executeCommand w this input)))"
  proof (cases x)
    case (Inl early)
    then show ?thesis using e by (simp add: exec_vision [OF p] r)
  next
    case (Inr this')
    then show ?thesis
      using e
      by (simp add: exec_vision [OF p] r handleVision_missing_file [OF f]
          is_generation_call_def)
  qed
  show "executeCommand w this input =
           (\<lparr>success = False, result_output = ''Image file not found: '' @ imagePath,
             error = Some ''File not found''\<rparr>, this, [ExistsSync imagePath])"
    if "model this \<noteq> None"
  proof -
    from that obtain m where m: "model this = Some m" by blast
    show ?thesis
      by (simp add: exec_configured_vision [OF p m] handleVision_missing_file [OF f]
          log_result_def)
  qed
qed

lemma require_model_unconfigured:
  assumes "model this = None"
  shows "snd (require_model w this) = [Question]"
    and "question w = Inr key \<Longrightarrow> js_length (trim key) < 20 \<Longrightarrow>
         require_model w this = (Inl (no_key_result w), [Question])"
  using assms
  by (auto simp: require_model_def promptForApiKey_def Let_def split: sum.splits option.splits)

lemma exec_unconfigured:
  assumes p: "parseCommand input = (cmd, args)"
    and c: "cmd \<in> set [''explain'', ''generate'', ''summarize'', ''vision'']"
    and m: "model this = None"
  shows "\<exists>evs. snd (snd (executeCommand w this input)) = Question # evs"
    and "question w = Inr key \<Longrightarrow> js_length (trim key) < 20 \<Longrightarrow>
         executeCommand w this input = (no_key_result w, this, [Question])"
proof -
  obtain x evs where r: "require_model w this = (x, evs)" by (cases "require_model w this")
  have evs: "evs = [Question]" using require_model_unconfigured(1) [OF m, of w] r by simp
  from c consider (c_ai) "cmd = ''explain'' \<or> cmd = ''generate'' \<or> cmd = ''summarize''"
    | (c_vision) "cmd = ''vision''" by auto
  then have ex: "executeCommand w this input =
     (case x of Inl early \<Rightarrow> (early, this, evs)
      | Inr this' \<Rightarrow>
          (let (result, evs') = (if cmd = ''vision'' then handleVision w this' args
                                 else handleAICommand w this' cmd args)
           in (result, log_result w this' (trim input) result, evs @ evs')))"
  proof cases
    case c_ai
    then have "cmd \<noteq> ''vision''" by auto
    then show ?thesis by (cases x) (simp_all add: exec_ai [OF p c_ai] r)
  next
    case c_vision
    then show ?thesis using p by (cases x) (simp_all add: exec_vision r)
  qed
  show "\<exists>evs. snd (snd (executeCommand w this input)) = Question # evs"
    unfolding ex evs by (cases x) (simp_all add: case_prod_beta)
  show "executeCommand w this input = (no_key_result w, this, [Question])"
    if "question w = Inr key" "js_length (trim key) < 20"
    using require_model_unconfigured(2) [OF m that] r unfolding ex by auto
qed

text \<open>
  The two call modes agree on a non-empty argument: with a model in place and a
  collaborator whose stream, put together, is its blocking answer to the same prompt,
  \<open>streamResponse\<close> yields fragments whose concatenation is the output of
  \<open>executeCommand\<close>, and both hand the same prompt to the collaborator.
\<close>

lemma stream_matches_blocking:
  assumes p: "parseCommand input = (cmd, args)"
    and c: "cmd = ''explain'' \<or> cmd = ''generate'' \<or> cmd = ''summarize''"
    and a: "args \<noteq> []"
    and m: "model this = Some m"
    and stub: "\<And>prompt. \<exists>chunks. generateContentStream w m prompt = Inr (chunks, None)
                 \<and> generateContent w m prompt = Inr (concat chunks)"
  shows "concat (fst (streamResponse w this input))
           = result_output (fst (executeCommand w this input))
     \<and> (\<exists>prompt. snd (snd (streamResponse w this input)) = [GenerateContentStream m prompt]
           \<and> snd (snd (executeCommand w this input)) = [GenerateContent m prompt])"
proof -
  define prompt where "prompt =
     (if cmd = ''explain'' then explain_prompt args
      else if cmd = ''generate'' then generate_prompt args
      else summarize_prompt args)"
  from stub [of prompt] obtain chunks
    where s: "generateContentStream w m prompt = Inr (chunks, None)"
      and b: "generateContent w m prompt = Inr (concat chunks)" by blast
  have h: "handleAICommand w this cmd args = callGeminiAPI w this prompt"
    using c
  proof (elim disjE)
    assume "cmd = ''explain''"
    then show ?thesis using a by (simp add: handleAICommand_def handleExplain_def prompt_def)
  next
    assume "cmd = ''generate''"
    then show ?thesis using a by (simp add: handleAICommand_def handleGenerate_def prompt_def)
  next
    assume "cmd = ''summarize''"
    then show ?thesis using a by (simp add: handleAICommand_def handleSummarize_def prompt_def)
  qed
  have g: "callGeminiAPI w this prompt =
      (\<lparr>success = True, result_output = concat chunks, error = None\<rparr>, [GenerateContent m prompt])"
    by (simp add: callGeminiAPI_def m b)
  have e: "fst (executeCommand w this input)
             = \<lparr>success = True, result_output = concat chunks, error = None\<rparr>"
    "snd (snd (executeCommand w this input)) = [GenerateContent m prompt]"
    by (simp_all add: exec_configured_ai [OF p c m] h g)
  have t: "streamResponse w this input = (chunks, this, [GenerateContentStream m prompt])"
    using c
  proof (elim disjE)
    assume "cmd = ''explain''"
    then show ?thesis using p s by (simp add: streamResponse_def m prompt_def)
  next
    assume "cmd = ''generate''"
    then show ?thesis using p s by (simp add: streamResponse_def m prompt_def)
  next
    assume "cmd = ''summarize''"
    then show ?thesis using p s by (simp add: streamResponse_def m prompt_def)
  qed
  show ?thesis by (simp add: e t)
qed

text \<open>
  The blocking path with an empty argument: the handlers of \<open>explain\<close>, \<open>generate\<close> and
  \<open>summarize\<close> return a failed result whose output names the usage of the verb, and call
  no collaborator; \<open>executeCommand\<close> on such a line never calls the text-generation
  collaborator, and with a model in place returns the handler's usage failure.
\<close>

lemma blocking_empty_argument_usage_failure:
  "handleAICommand w this ''explain'' [] =
     (\<lparr>success = False,
       result_output = ''Please provide text to explain. Usage: explain <text>'',
       error = Some ''Missing text''\<rparr>, [])
   \<and> handleAICommand w this ''generate'' [] =
     (\<lparr>success = False,
       result_output = ''Please provide a generation request. Usage: generate <request>'',
       error = Some ''Missing request''\<rparr>, [])
   \<and> handleAICommand w this ''summarize'' [] =
     (\<lparr>success = False,
       result_output = ''Please provide text to summarize. Usage: summarize <text>'',
       error = Some ''Missing text''\<rparr>, [])
   \<and> (parseCommand input = (cmd, []) \<and> cmd \<in> set [''explain'', ''generate'', ''summarize''] \<longrightarrow>
        \<not> list_ex is_generation_call (snd (snd (executeCommand w this input)))
        \<and> (model this \<noteq> None \<longrightarrow>
             executeCommand w this input = (fst (handleAICommand w this cmd []), this, [])))"
proof -
  have "\<not> list_ex is_generation_call (snd (snd (executeCommand w this input)))
        \<and> (model this \<noteq> None \<longrightarrow>
             executeCommand w this input = (fst (handleAICommand w this cmd []), this, []))"
    if p: "parseCommand input = (cmd, [])"
      and "cmd \<in> set [''explain'', ''generate'', ''summarize'']"
  proof -
    from that(2) have c: "cmd = ''explain'' \<or> cmd = ''generate'' \<or> cmd = ''summarize''"
      by simp
    show ?thesis using exec_ai_empty_argument [OF p c] by blast
  qed
  then show ?thesis using handleAICommand_empty_argument [of w this] by blast
qed

text \<open>
  The streaming path with an empty argument: with a model in place, \<open>streamResponse\<close>
  builds the prompt of the verb from the empty argument and calls the collaborator.
\<close>

lemma stream_empty_argument:
  assumes p: "parseCommand input = (cmd, [])"
    and c: "cmd = ''explain'' \<or> cmd = ''generate'' \<or> cmd = ''summarize''"
    and m: "model this = Some m"
  shows "snd (snd (streamResponse w this input)) =
     [GenerateContentStream m
        (if cmd = ''explain'' then explain_prompt []
         else if cmd = ''generate'' then generate_prompt [] else summarize_prompt [])]"
  using c
proof (elim disjE)
  assume "cmd = ''explain''"
  then show ?thesis
    using p by (simp add: streamResponse_def m Let_def split: sum.splits prod.splits option.splits)
next
  assume "cmd = ''generate''"
  then show ?thesis
    using p by (simp add: streamResponse_def m Let_def split: sum.splits prod.splits option.splits)
next
  assume "cmd = ''summarize''"
  then show ?thesis
    using p by (simp add: streamResponse_def m Let_def split: sum.splits prod.splits option.splits)
qed

text \<open>
  The blocking path without a model: \<open>executeCommand\<close> on an AI verb first asks for a
  key; when the answer, trimmed, has fewer than 20 characters, the result is
  \<open>no_key_result\<close>, the terminal is unchanged and a following line with a verb that is
  not builtin is run by the shell.
\<close>

lemma blocking_missing_credential_fails_softly:
  assumes "parseCommand input = (cmd, args)"
    and "cmd \<in> set [''explain'', ''generate'', ''summarize'', ''vision'']"
    and "model this = None"
  shows "(\<exists>evs. snd (snd (executeCommand w this input)) = Question # evs)
   \<and> (question w = Inr key \<and> js_length (trim key) < 20 \<longrightarrow>
        executeCommand w this input = (no_key_result w, this, [Question])
        \<and> \<not> success (no_key_result w)
        \<and> result_output (no_key_result w) =
            chalk_yellow (colour w) (warning_sign @
              ''  AI features require a valid Gemini API key. Shell commands will continue to work normally.'')
        \<and> (parseCommand line = (c, a) \<and> c \<notin> set builtin_verbs \<longrightarrow>
             fst (executeCommand w' (fst (snd (executeCommand w this input))) line)
               = fst (executeShellCommand w' (trim line))))"
proof -
  have 1: "\<exists>evs. snd (snd (executeCommand w this input)) = Question # evs"
    using exec_unconfigured(1) [OF assms] .
  have 2: "executeCommand w this input = (no_key_result w, this, [Question])"
    if "question w = Inr key" "js_length (trim key) < 20"
    using exec_unconfigured(2) [OF assms that] .
  have 3: "\<not> success (no_key_result w)"
    "result_output (no_key_result w) =
       chalk_yellow (colour w) (warning_sign @
         ''  AI features require a valid Gemini API key. Shell commands will continue to work normally.'')"
    by (simp_all add: no_key_result_def)
  have 4: "fst (executeCommand w' this' line) = fst (executeShellCommand w' (trim line))"
    if "parseCommand line = (c, a)" "c \<notin> set builtin_verbs" for this'
    using exec_shell [OF that] by simp
  show ?thesis using 1 2 3 4 by simp
qed

text \<open>
  The streaming path without a model: \<open>streamResponse\<close> on \<open>explain\<close>, \<open>generate\<close> or
  \<open>summarize\<close> yields one error string and calls nothing, the prompt for a key included.
\<close>

lemma stream_unconfigured:
  assumes p: "parseCommand input = (cmd, args)"
    and c: "cmd = ''explain'' \<or> cmd = ''generate'' \<or> cmd = ''summarize''"
    and m: "model this = None"
  shows "streamResponse w this input =
     ([''Error: AI not initialized. Use an AI command to set up API key.''], this, [])"
  using c
proof (elim disjE)
  assume "cmd = ''explain''"
  then show ?thesis using p by (simp add: streamResponse_def m)
next
  assume "cmd = ''generate''"
  then show ?thesis using p by (simp add: streamResponse_def m)
next
  assume "cmd = ''summarize''"
  then show ?thesis using p by (simp add: streamResponse_def m)
qed

section \<open>The claims\<close>

text \<open>
  C1. Three commands are appended to a new history object (whatever their outputs);
  then \<open>getPrevious\<close> is called three times and \<open>getNext\<close> three times. The six
  calls return the third, second and first command, then the second and third command
  again, and last the empty string; the cursor ends past the end.
\<close>

theorem recall_three_back_and_forth:
  "recall_calls [getPrevious, getPrevious, getPrevious, getNext, getNext, getNext]
     (add (add (add new_TerminalHistory c1 o1 t1) c2 o2 t2) c3 o3 t3)
   = Inr ([Some c3, Some c2, Some c1, Some c2, Some c3, Some []],
          \<lparr>history = [\<lparr>command = c1, item_output = o1, timestamp = t1\<rparr>,
                      \<lparr>command = c2, item_output = o2, timestamp = t2\<rparr>,
                      \<lparr>command = c3, item_output = o3, timestamp = t3\<rparr>],
           currentIndex = 3\<rparr>)"
  by (simp add: new_TerminalHistory_def add_def getPrevious_def getNext_def js_index_def Let_def)

text \<open>
  C2, as the specification words it, fails: the line \<open>explain<TAB>foo\<close> has a white-space
  character, the tab, but \<open>parseCommand\<close> looks for a space only, so the whole line
  becomes the verb and the argument is empty.
\<close>

theorem parseCommand_tab_counterexample:
  "parseCommand (''explain'' @ [CHR 0x09] @ ''foo'') = (''explain'' @ [CHR 0x09] @ ''foo'', [])
   \<and> spec_route (''explain'' @ [CHR 0x09] @ ''foo'') = (''explain'', ''foo'')"
  by (simp add: parseCommand_def spec_route_def sanitizeInput_def trim_def is_space_def
      is_newline_def toLowerCase_def lower_char_def lower_table_def Let_def)

text \<open>
  C2, amended. For every input line, \<open>parseCommand\<close> trims the line, replaces every run
  of newlines and carriage returns by one space (so no such character is left), and
  splits at the first space character: what is before it, lowercased, is the verb and
  what is after it, trimmed, is the argument. With no space in the sanitized line the
  verb is the whole lowercased line and the argument is empty. When the only white
  space of the line is spaces, newlines and carriage returns, this is the split at the
  first white-space character that the specification describes.
\<close>

theorem parseCommand_splits_at_first_space:
  "parseCommand input =
     (toLowerCase (takeWhile (\<lambda>c. c \<noteq> CHR 0x20) (sanitizeInput input)),
      trim (drop 1 (dropWhile (\<lambda>c. c \<noteq> CHR 0x20) (sanitizeInput input))))
   \<and> sanitizeInput input = replace_newlines (trim input)
   \<and> (\<forall>c\<in>set (sanitizeInput input). \<not> is_newline c)
   \<and> (CHR 0x20 \<notin> set (sanitizeInput input) \<longrightarrow>
        parseCommand input = (toLowerCase (sanitizeInput input), []))
   \<and> ((\<forall>c\<in>set input. is_space c \<longrightarrow> c = CHR 0x20 \<or> is_newline c) \<longrightarrow>
        parseCommand input = spec_route input)"
proof -
  have "\<forall>c\<in>set (sanitizeInput input). \<not> is_newline c"
    unfolding sanitizeInput_def using replace_newlines_free by blast
  then show ?thesis
    using parse_split [of input] parse_no_space [of input]
      parse_agrees_with_spec_route [of input]
    by (simp add: sanitizeInput_def)
qed

theorem parseCommand_splits_at_first_space_witness:
  "parseCommand ''LS'' = (''ls'', [])
   \<and> parseCommand ''git status'' = spec_route ''git status''
   \<and> spec_route ''git status'' = (''git'', ''status'')"
proof -
  have 1: "CHR 0x20 \<notin> set (sanitizeInput ''LS'')" by code_simp
  have 2: "toLowerCase (sanitizeInput ''LS'') = ''ls''" by code_simp
  have 3: "\<forall>c\<in>set ''git status''. is_space c \<longrightarrow> c = CHR 0x20 \<or> is_newline c"
    by code_simp
  have 4: "spec_route ''git status'' = (''git'', ''status'')" by code_simp
  from 1 parseCommand_splits_at_first_space [of "''LS''"]
  have "parseCommand ''LS'' = (toLowerCase (sanitizeInput ''LS''), [])" by blast
  moreover from 3 parseCommand_splits_at_first_space [of "''git status''"]
  have "parseCommand ''git status'' = spec_route ''git status''" by blast
  ultimately show ?thesis using 2 4 by simp
qed

text \<open>
  C10. The cursor of a history object stays between \<open>-1\<close> and the number of entries:
  this holds for a new object and every operation (\<open>add\<close>, \<open>getPrevious\<close>, \<open>getNext\<close>,
  \<open>getAll\<close>, \<open>clear\<close>) keeps it, without ever reading an entry that is not there. After
  \<open>add\<close> the cursor is not negative, and an operation keeps "the history is empty or the
  cursor is not negative". So every sequence of operations on a new object runs through
  without an out-of-range read and ends in a state with both properties.
\<close>

theorem history_cursor_invariant:
  "cursor_in_range new_TerminalHistory
   \<and> (cursor_in_range h \<longrightarrow>
        (\<exists>h'. history_step op h = Inr h' \<and> cursor_in_range h'
           \<and> (cursor_nonneg_if_filled h \<longrightarrow> cursor_nonneg_if_filled h'))
        \<and> (\<exists>r h'. getPrevious h = Inr (r, h'))
        \<and> (\<exists>r h'. getNext h = Inr (r, h')))
   \<and> 0 \<le> currentIndex (add h cmd out t)
   \<and> (\<exists>h'. history_run ops new_TerminalHistory = Inr h' \<and> cursor_in_range h'
          \<and> cursor_nonneg_if_filled h')"
proof -
  have "cursor_in_range h \<Longrightarrow> \<exists>r h'. getPrevious h = Inr (r, h')"
    using getPrevious_safe [of h] by blast
  moreover have "cursor_in_range h \<Longrightarrow> \<exists>r h'. getNext h = Inr (r, h')"
    using getNext_safe [of h] by blast
  moreover have "0 \<le> currentIndex (add h cmd out t)"
    using add_cursor [of h cmd out t] by simp
  moreover have "\<exists>h'. history_run ops new_TerminalHistory = Inr h' \<and> cursor_in_range h'
          \<and> cursor_nonneg_if_filled h'"
    using history_run_safe new_cursor by blast
  ultimately show ?thesis
    using new_cursor history_step_safe [of h op] by blast
qed

theorem history_cursor_invariant_witness:
  "cursor_in_range (add new_TerminalHistory ''ls'' ''a.txt'' 0)
   \<and> (\<exists>h'. history_step GetPrevious (add new_TerminalHistory ''ls'' ''a.txt'' 0) = Inr h'
         \<and> cursor_in_range h' \<and> cursor_nonneg_if_filled h')
   \<and> (\<exists>h'. history_run [GetNext, Add ''ls'' ''a.txt'' 0, GetPrevious, GetPrevious, Clear]
              new_TerminalHistory = Inr h' \<and> cursor_in_range h')"
proof -
  have a: "cursor_in_range (add new_TerminalHistory ''ls'' ''a.txt'' 0)"
    and b: "cursor_nonneg_if_filled (add new_TerminalHistory ''ls'' ''a.txt'' 0)"
    by (simp_all add: add_def new_TerminalHistory_def cursor_in_range_def
        cursor_nonneg_if_filled_def Let_def)
  show ?thesis
    using a b
      history_cursor_invariant [of "add new_TerminalHistory ''ls'' ''a.txt'' 0" GetPrevious
        "[]" "[]" 0 "[GetNext, Add ''ls'' ''a.txt'' 0, GetPrevious, GetPrevious, Clear]"]
    by blast
qed

text \<open>
  C3, as the specification words it, fails in two places. The line \<open>exit 7\<close> ends with
  exit code 7 and nothing on stderr: the result carries the output
  \<open>Command failed with code 7\<close>, which is not empty, and yet no entry is made. And
  \<open>add\<close> itself stores an entry whose output is empty.
\<close>

theorem failed_result_not_logged_counterexample:
  "result_output (fst (executeCommand stub_world fresh_terminal ''exit 7'')) = ''Command failed with code 7''
   \<and> history (terminal_history (fst (snd (executeCommand stub_world fresh_terminal ''exit 7'')))) = []
   \<and> history (add new_TerminalHistory ''true'' [] 0)
       = [\<lparr>command = ''true'', item_output = [], timestamp = 0\<rparr>]"
  by code_simp

text \<open>
  C3, amended. For every input line given to \<open>executeCommand\<close>, an entry is appended to
  the history exactly when the result is successful and its output is not empty, and
  the entry holds the trimmed line, that output and the current time; otherwise the
  history is left as it is (for \<open>clear\<close>: as the handler has emptied it). Failed results
  and results with empty output are never logged. The test is made by the dispatcher:
  \<open>add\<close> appends whatever it is given, also an empty output.
\<close>

theorem history_entry_iff_successful_output:
  "terminal_history (fst (snd (executeCommand w this input))) =
     (let base = (if fst (parseCommand input) = ''clear'' then clear (terminal_history this)
                  else terminal_history this);
          result = fst (executeCommand w this input)
      in if success result \<and> result_output result \<noteq> []
         then add base (trim input) (result_output result) (now w) else base)
   \<and> history (add h cmd out t) = history h @ [\<lparr>command = cmd, item_output = out, timestamp = t\<rparr>]"
  using exec_history [of w this input] by (simp add: add_def Let_def)

theorem history_entry_iff_successful_output_witness:
  "history (terminal_history (fst (snd (executeCommand stub_world fresh_terminal ''echo hi''))))
     = [\<lparr>command = ''echo hi'', item_output = ''hi'', timestamp = 0\<rparr>]
   \<and> history (terminal_history (fst (snd (executeCommand stub_world fresh_terminal ''exit 7'')))) = []"
proof -
  have a: "fst (executeCommand stub_world fresh_terminal ''echo hi'')
             = \<lparr>success = True, result_output = ''hi'', error = None\<rparr>"
    by code_simp
  have b: "fst (parseCommand ''echo hi'') \<noteq> ''clear''" "trim ''echo hi'' = ''echo hi''"
    by code_simp+
  have c: "terminal_history fresh_terminal = new_TerminalHistory" "now stub_world = 0"
    by code_simp+
  have a': "\<not> success (fst (executeCommand stub_world fresh_terminal ''exit 7''))"
    by code_simp
  have b': "fst (parseCommand ''exit 7'') \<noteq> ''clear''"
    by code_simp
  from history_entry_iff_successful_output [of stub_world fresh_terminal "''echo hi''"]
  have 1: "history (terminal_history (fst (snd (executeCommand stub_world fresh_terminal ''echo hi''))))
     = [\<lparr>command = ''echo hi'', item_output = ''hi'', timestamp = 0\<rparr>]"
    by (simp add: a b c add_def new_TerminalHistory_def Let_def)
  from history_entry_iff_successful_output [of stub_world fresh_terminal "''exit 7''"]
  have 2: "history (terminal_history (fst (snd (executeCommand stub_world fresh_terminal ''exit 7'')))) = []"
    by (simp add: a' b' c new_TerminalHistory_def Let_def)
  from 1 2 show ?thesis by simp
qed

text \<open>
  C5, as the specification words it, fails for a launch failure: the output is not the
  message of the launch error but that message after the prefix \<open>Error: \<close>.
\<close>

theorem launch_error_output_counterexample:
  "spawn_sh stub_world ''ls'' = SpawnError ''spawn sh ENOENT''
   \<and> result_output (fst (executeShellCommand stub_world ''ls'')) = ''Error: spawn sh ENOENT''
   \<and> result_output (fst (executeShellCommand stub_world ''ls'')) \<noteq> ''spawn sh ENOENT''"
  by code_simp

text \<open>
  C5, amended. When the interpreter closes with exit code 0 the result is successful
  and its output is the trimmed stdout, or \<open>Command executed successfully\<close> when that
  is empty. When it closes with an exit code \<open>n\<close> other than 0 the result is a failure
  whose output is the trimmed stderr, or \<open>Command failed with code n\<close> when that is
  empty; the error detail is the trimmed stderr. When the interpreter cannot be
  launched the result is a failure whose output is \<open>Error: \<close> followed by the launch
  error's message, and the error detail is that message.
\<close>

theorem executeShellCommand_mapping:
  "(spawn_sh w cmd = Closed (Some 0) out err \<longrightarrow>
      executeShellCommand w cmd =
        (\<lparr>success = True,
          result_output = (if trim (concat out) = [] then ''Command executed successfully''
                           else trim (concat out)),
          error = None\<rparr>, [Spawn cmd]))
   \<and> (spawn_sh w cmd = Closed (Some n) out err \<and> n \<noteq> 0 \<longrightarrow>
      executeShellCommand w cmd =
        (\<lparr>success = False,
          result_output = (if trim (concat err) = [] then ''Command failed with code '' @ show_int n
                           else trim (concat err)),
          error = Some (trim (concat err))\<rparr>, [Spawn cmd]))
   \<and> (spawn_sh w cmd = SpawnError msg \<longrightarrow>
      executeShellCommand w cmd =
        (\<lparr>success = False, result_output = ''Error: '' @ msg, error = Some msg\<rparr>, [Spawn cmd]))"
  by (simp add: executeShellCommand_def or_string_def show_code_def Let_def)

theorem executeShellCommand_mapping_witness:
  "executeShellCommand stub_world ''echo hi''
     = (\<lparr>success = True, result_output = ''hi'', error = None\<rparr>, [Spawn ''echo hi''])
   \<and> executeShellCommand stub_world ''exit 7''
     = (\<lparr>success = False, result_output = ''Command failed with code 7'', error = Some []\<rparr>,
        [Spawn ''exit 7''])
   \<and> executeShellCommand stub_world ''ls''
     = (\<lparr>success = False, result_output = ''Error: spawn sh ENOENT'',
         error = Some ''spawn sh ENOENT''\<rparr>, [Spawn ''ls''])"
proof -
  have s1: "spawn_sh stub_world ''echo hi'' = Closed (Some 0) [''hi'' @ [CHR 0x0A]] []"
    and s2: "spawn_sh stub_world ''exit 7'' = Closed (Some 7) [] []"
    and s3: "spawn_sh stub_world ''ls'' = SpawnError ''spawn sh ENOENT''"
    by code_simp+
  have t: "trim (concat [''hi'' @ [CHR 0x0A]]) = ''hi''" "trim (concat []) = []"
    "show_int 7 = ''7''"
    by code_simp+
  from s1 executeShellCommand_mapping [of stub_world "''echo hi''" "[''hi'' @ [CHR 0x0A]]" "[]" 7 "[]"]
  have 1: "executeShellCommand stub_world ''echo hi''
     = (\<lparr>success = True, result_output = ''hi'', error = None\<rparr>, [Spawn ''echo hi''])"
    by (simp add: trim_def is_space_def)
  from s2 executeShellCommand_mapping [of stub_world "''exit 7''" "[]" "[]" 7 "[]"]
  have 2: "executeShellCommand stub_world ''exit 7''
     = (\<lparr>success = False, result_output = ''Command failed with code 7'', error = Some []\<rparr>,
        [Spawn ''exit 7''])"
    by (simp add: t trim_def)
  from s3 executeShellCommand_mapping [of stub_world "''ls''" "[]" "[]" 7 "''spawn sh ENOENT''"]
  have 3: "executeShellCommand stub_world ''ls''
     = (\<lparr>success = False, result_output = ''Error: spawn sh ENOENT'',
         error = Some ''spawn sh ENOENT''\<rparr>, [Spawn ''ls''])"
    by simp
  from 1 2 3 show ?thesis by simp
qed



text \<open>
  C6 fails on the code for the streaming call mode, which is how the command line runs
  these verbs. With a model in place and the stub collaborator, the lines \<open>generate\<close>
  and \<open>summarize\<close> (empty argument) make \<open>streamResponse\<close> call the text-generation
  collaborator with the prompt built from the empty argument and yield its fragments;
  no usage failure is produced. The handlers of the blocking path, on the same verbs
  and argument, return the usage failure and call nothing.
\<close>

theorem stream_calls_collaborator_on_empty_argument:
  "parseCommand ''generate'' = (''generate'', [])
   \<and> fst (streamResponse stub_world configured_terminal ''generate'') = [''o'', ''k'']
   \<and> snd (snd (streamResponse stub_world configured_terminal ''generate''))
       = [GenerateContentStream
            \<lparr>handle_apiKey = ''0123456789abcdefghij'', handle_model = ''gemini-2.5-flash''\<rparr>
            (generate_prompt [])]
   \<and> list_ex is_generation_call
         (snd (snd (streamResponse stub_world configured_terminal ''generate'')))
   \<and> handleAICommand stub_world configured_terminal ''generate'' []
       = (\<lparr>success = False,
           result_output = ''Please provide a generation request. Usage: generate <request>'',
           error = Some ''Missing request''\<rparr>, [])
   \<and> parseCommand ''summarize'' = (''summarize'', [])
   \<and> fst (streamResponse stub_world configured_terminal ''summarize'') = [''o'', ''k'']
   \<and> list_ex is_generation_call
         (snd (snd (streamResponse stub_world configured_terminal ''summarize'')))
   \<and> handleAICommand stub_world configured_terminal ''summarize'' []
       = (\<lparr>success = False,
           result_output = ''Please provide text to summarize. Usage: summarize <text>'',
           error = Some ''Missing text''\<rparr>, [])"
  by code_simp

text \<open>
  C7. For a non-empty path that does not exist on disk, \<open>handleVision\<close> returns a failed
  result with output \<open>Image file not found: <path>\<close> and error detail \<open>File not found\<close>;
  the only thing it calls is the existence test. So \<open>executeCommand\<close> on a line that
  parses to \<open>vision\<close> with such a path never calls the text-generation collaborator, and
  with a model in place it returns that result and leaves the terminal unchanged.
\<close>

theorem vision_missing_file_fails:
  assumes "imagePath \<noteq> []" and "\<not> existsSync w imagePath"
  shows "handleVision w this imagePath =
     (\<lparr>success = False, result_output = ''Image file not found: '' @ imagePath,
       error = Some ''File not found''\<rparr>, [ExistsSync imagePath])
   \<and> (parseCommand input = (''vision'', imagePath) \<longrightarrow>
        \<not> list_ex is_generation_call (snd (snd (executeCommand w this input)))
        \<and> (model this \<noteq> None \<longrightarrow>
             executeCommand w this input =
               (\<lparr>success = False, result_output = ''Image file not found: '' @ imagePath,
                 error = Some ''File not found''\<rparr>, this, [ExistsSync imagePath])))"
  using handleVision_missing_file [OF assms] exec_vision_missing_file [OF _ assms]
  by blast

theorem vision_missing_file_fails_witness:
  "executeCommand stub_world configured_terminal ''vision /does/not/exist.png''
     = (\<lparr>success = False, result_output = ''Image file not found: /does/not/exist.png'',
         error = Some ''File not found''\<rparr>, configured_terminal,
        [ExistsSync ''/does/not/exist.png''])"
proof -
  have p: "parseCommand ''vision /does/not/exist.png'' = (''vision'', ''/does/not/exist.png'')"
    by code_simp
  have f: "''/does/not/exist.png'' \<noteq> []" "\<not> existsSync stub_world ''/does/not/exist.png''"
    by code_simp+
  have m: "model configured_terminal \<noteq> None" by code_simp
  from vision_missing_file_fails
    [OF f, of configured_terminal "''vision /does/not/exist.png''"] p m
  show ?thesis by simp
qed

text \<open>
  C8 fails on the code for the streaming call mode. On a terminal without a model the
  line \<open>explain recursion\<close> makes \<open>streamResponse\<close> yield the one fragment
  \<open>Error: AI not initialized. Use an AI command to set up API key.\<close> and call nothing:
  no key is asked for. \<open>executeCommand\<close> on the same line and terminal does ask first.
\<close>

theorem stream_never_asks_for_key:
  "model fresh_terminal = None
   \<and> parseCommand ''explain recursion'' = (''explain'', ''recursion'')
   \<and> fst (streamResponse stub_world fresh_terminal ''explain recursion'')
       = [''Error: AI not initialized. Use an AI command to set up API key.'']
   \<and> snd (snd (streamResponse stub_world fresh_terminal ''explain recursion'')) = []
   \<and> model (fst (snd (streamResponse stub_world fresh_terminal ''explain recursion''))) = None
   \<and> snd (snd (executeCommand stub_world fresh_terminal ''explain recursion'')) = [Question]"
  by code_simp

text \<open>
  C9 fails on the code for the empty argument. With a model in place and the stub
  collaborator (which answers \<open>ok\<close>, streamed as \<open>o\<close>, \<open>k\<close>), the line \<open>explain\<close> makes
  \<open>streamResponse\<close> build the prompt from the empty argument, call the collaborator
  and yield \<open>o\<close>, \<open>k\<close>, whereas \<open>executeCommand\<close> returns the usage failure and calls
  nothing: \<open>streamResponse\<close> lacks the empty-argument test of the handlers.
\<close>

theorem stream_skips_empty_argument_check:
  "parseCommand ''explain'' = (''explain'', [])
   \<and> model configured_terminal
       = Some \<lparr>handle_apiKey = ''0123456789abcdefghij'', handle_model = ''gemini-2.5-flash''\<rparr>
   \<and> fst (streamResponse stub_world configured_terminal ''explain'') = [''o'', ''k'']
   \<and> snd (snd (streamResponse stub_world configured_terminal ''explain''))
       = [GenerateContentStream
            \<lparr>handle_apiKey = ''0123456789abcdefghij'', handle_model = ''gemini-2.5-flash''\<rparr>
            (explain_prompt [])]
   \<and> fst (executeCommand stub_world configured_terminal ''explain'')
       = \<lparr>success = False,
          result_output = ''Please provide text to explain. Usage: explain <text>'',
          error = Some ''Missing text''\<rparr>
   \<and> snd (snd (executeCommand stub_world configured_terminal ''explain'')) = []
   \<and> concat (fst (streamResponse stub_world configured_terminal ''explain''))
       \<noteq> result_output (fst (executeCommand stub_world configured_terminal ''explain''))"
  by code_simp

end
